theory Spec2Isabelle
  imports Complex_Main
begin

section \<open>One-way range: link-end scaling, observation partial and observation model\<close>

text \<open>
  The development embeds \<^verbatim>\<open>oneWayRangePartial.cpp\<close> (namespace
  \<^verbatim>\<open>tudat::observation_partials\<close>) and \<^verbatim>\<open>oneWayRangeObservationModel.h\<close>
  (namespace \<^verbatim>\<open>tudat::observation_models\<close>).

  Conventions of the embedding:
  \<^item> a C++ \<^verbatim>\<open>double\<close> is a \<^typ>\<open>real\<close>: the theorems are about the formulas the code
    evaluates, not about rounding, infinities or NaN;
  \<^item> an Eigen vector or a matrix with one row is the list of its coefficients; a matrix
    with three rows is the list of its columns;
  \<^item> a \<^verbatim>\<open>throw\<close> is a result \<open>Inl e\<close>, a normal return is \<open>Inr v\<close>;
  \<^item> member variables live in a record that the member function receives, and returns
    when it changes them;
  \<^item> the class templates are taken at their default arguments
    (\<^verbatim>\<open>ObservationScalarType = double\<close>, \<^verbatim>\<open>TimeType = double\<close>), so the
    \<^verbatim>\<open>static_cast< double >\<close> and \<^verbatim>\<open>cast< double >\<close> of the source are identities.
\<close>

subsection \<open>Link ends and errors\<close>

text \<open>
  Modelled from the spec: the enumeration \<^verbatim>\<open>LinkEndType\<close> is declared in
  \<^verbatim>\<open>linkTypeDefs.h\<close>, which is not among the sources. The spec gives the roles
  transmitter, retransmitter(s) and receiver, in signal-flow order.
\<close>

datatype LinkEndType = transmitter | retransmitter nat | receiver

text \<open>
  Every failure of the source is a \<^verbatim>\<open>std::runtime_error\<close>; the constructors keep the
  conditions apart. \<open>InvalidLinkEndRole\<close> is thrown by the observation model ("link end is
  not transmitter or receiver"), \<open>IncompatibleLinkEnd\<close> by the scaling object ("link end
  type ... not compatible"). \<open>OutOfRange\<close> stands for \<^verbatim>\<open>operator[]\<close> of a
  \<^verbatim>\<open>std::vector\<close> past its end, where the C++ has no defined behaviour and the model
  stops. \<open>LightTimeFailure\<close> is whatever the light-time calculator throws.
\<close>

datatype error = InvalidLinkEndRole | IncompatibleLinkEnd | OutOfRange | LightTimeFailure

subsection \<open>Eigen operations\<close>

type_synonym Vector3d = "real list"
type_synonym Vector6d = "real list"

text \<open>\<^verbatim>\<open>v.segment( i, n )\<close>: the \<open>n\<close> coefficients of \<open>v\<close> from index \<open>i\<close>.\<close>

definition segment :: "nat \<Rightarrow> nat \<Rightarrow> real list \<Rightarrow> real list" where
  "segment i n v = take n (drop i v)"

text \<open>\<^verbatim>\<open>a - b\<close> on vectors.\<close>

definition minus_v :: "real list \<Rightarrow> real list \<Rightarrow> real list" where
  "minus_v a b = map2 (-) a b"

text \<open>\<^verbatim>\<open>a.dot( b )\<close>.\<close>

definition dot :: "real list \<Rightarrow> real list \<Rightarrow> real" where
  "dot a b = sum_list (map2 (*) a b)"

text \<open>\<^verbatim>\<open>v.norm( )\<close>: the square root of the sum of the squared coefficients.\<close>

definition norm_v :: "real list \<Rightarrow> real" where
  "norm_v v = sqrt (dot v v)"

text \<open>\<^verbatim>\<open>v.transpose( )\<close>: the same coefficients, as a row or as a column.\<close>

definition transpose_v :: "real list \<Rightarrow> real list" where
  "transpose_v v = v"

text \<open>\<^verbatim>\<open>v / s\<close> and \<^verbatim>\<open>v * s\<close> with a scalar \<open>s\<close>, coefficient by coefficient.\<close>

definition divide_v :: "real list \<Rightarrow> real \<Rightarrow> real list" where
  "divide_v v s = map (\<lambda>x. x / s) v"

definition times_v :: "real list \<Rightarrow> real \<Rightarrow> real list" where
  "times_v v s = map (\<lambda>x. x * s) v"

text \<open>
  A \<^verbatim>\<open>Matrix< double, 1, 3 >\<close> times a \<^verbatim>\<open>Matrix< double, 3, Dynamic >\<close> given by its
  columns: one dot product for each column.
\<close>

definition row_times_matrix :: "real list \<Rightarrow> real list list \<Rightarrow> real list" where
  "row_times_matrix r m = map (dot r) m"

subsection \<open>OneWayRangeScaling\<close>

text \<open>
  The member variables that \<^verbatim>\<open>oneWayRangePartial.cpp\<close> reads and writes. The source
  ends each member's name with an underscore, which a field name here cannot do.
\<close>

record OneWayRangeScaling =
  receiverReferenceLightTimeCorrectionScaling :: real
  receiverReferenceScalingFactor :: "real list"
  transmitterReferenceLightTimeCorrectionScaling :: real
  transmitterReferenceScalingFactor :: "real list"

text \<open>
  \<^verbatim>\<open>OneWayRangeScaling::update\<close>. The constant
  \<^verbatim>\<open>physical_constants::SPEED_OF_LIGHT\<close> is declared in a header that is not among the
  sources; it is the parameter \<open>c\<close>. The arguments \<open>times\<close> (here \<open>times'\<close>) and
  \<open>fixedLinkEnd\<close> are not used by the body.
\<close>

definition update ::
  "real \<Rightarrow> Vector6d list \<Rightarrow> real list \<Rightarrow> LinkEndType \<Rightarrow> OneWayRangeScaling
    \<Rightarrow> error + OneWayRangeScaling" where
  "update c linkEndStates times' fixedLinkEnd this =
    (if length linkEndStates < 2 then Inl OutOfRange
     else
       let rangeVector =
             minus_v (segment 0 3 (linkEndStates ! 1)) (segment 0 3 (linkEndStates ! 0));
           rangeVectorNormalized = divide_v (transpose_v rangeVector) (norm_v rangeVector);
           this1 = this\<lparr>receiverReferenceLightTimeCorrectionScaling :=
             1 / (1 - dot (transpose_v rangeVectorNormalized)
                        (segment 3 3 (linkEndStates ! 0)) / c)\<rparr>;
           this2 = this1\<lparr>receiverReferenceScalingFactor :=
             times_v rangeVectorNormalized
               (receiverReferenceLightTimeCorrectionScaling this1)\<rparr>;
           this3 = this2\<lparr>transmitterReferenceLightTimeCorrectionScaling :=
             1 / (1 - dot (transpose_v rangeVectorNormalized)
                        (segment 3 3 (linkEndStates ! 1)) / c)\<rparr>;
           this4 = this3\<lparr>transmitterReferenceScalingFactor :=
             times_v rangeVectorNormalized
               (transmitterReferenceLightTimeCorrectionScaling this3)\<rparr>
       in Inr this4)"

text \<open>
  \<^verbatim>\<open>OneWayRangeScaling::getScalingFactor\<close>: the reference link end selects the factor
  or throws, then the factor is multiplied by \<open>-1.0\<close> for the receiver.
\<close>

definition getScalingFactor ::
  "LinkEndType \<Rightarrow> LinkEndType \<Rightarrow> OneWayRangeScaling \<Rightarrow> error + real list" where
  "getScalingFactor linkEndType referenceTimeLinkEnd this =
    (case (if referenceTimeLinkEnd = transmitter
             then Inr (transmitterReferenceScalingFactor this)
           else if referenceTimeLinkEnd = receiver
             then Inr (receiverReferenceScalingFactor this)
           else Inl IncompatibleLinkEnd) of
       Inl e \<Rightarrow> Inl e
     | Inr scaling \<Rightarrow>
         Inr (if linkEndType = receiver then times_v scaling (- 1) else scaling))"

text \<open>\<^verbatim>\<open>OneWayRangeScaling::getLightTimePartialScalingFactor\<close>.\<close>

definition getLightTimePartialScalingFactor ::
  "LinkEndType \<Rightarrow> OneWayRangeScaling \<Rightarrow> error + real" where
  "getLightTimePartialScalingFactor referenceTimeLinkEnd this =
    (if referenceTimeLinkEnd = transmitter
       then Inr (transmitterReferenceLightTimeCorrectionScaling this)
     else if referenceTimeLinkEnd = receiver
       then Inr (receiverReferenceLightTimeCorrectionScaling this)
     else Inl IncompatibleLinkEnd)"

subsection \<open>OneWayRangePartial\<close>

text \<open>
  Modelled from the spec: the class \<^verbatim>\<open>PositionPartial\<close> is declared in
  \<^verbatim>\<open>positionPartials.h\<close>, which is not among the sources. Its
  \<^verbatim>\<open>calculatePartial( state, time )\<close> is the raw position partial of the spec, a matrix
  with three rows that is given here by its columns.
\<close>

type_synonym PositionPartial = "Vector6d \<Rightarrow> real \<Rightarrow> real list list"

text \<open>
  An entry of the returned list is a pair of a matrix with one row and a time
  (\<^verbatim>\<open>std::pair< Eigen::Matrix< double, 1, Eigen::Dynamic >, double >\<close>).
\<close>

type_synonym SingleOneWayRangePartialReturnType = "real list \<times> real"
type_synonym OneWayRangePartialReturnType = "(real list \<times> real) list"

text \<open>
  The members that \<^verbatim>\<open>OneWayRangePartial::calculatePartial\<close> reads. The
  \<^verbatim>\<open>std::map\<close> of position partials is the list of its entries in iteration order.
\<close>

record OneWayRangePartial =
  oneWayRangeScaler :: OneWayRangeScaling
  positionPartialList :: "(LinkEndType \<times> PositionPartial) list"
  lighTimeCorrectionPartialsFunctions ::
    "(Vector6d list \<Rightarrow> real list \<Rightarrow> SingleOneWayRangePartialReturnType) list"

text \<open>
  The first loop of \<^verbatim>\<open>calculatePartial\<close>, over the position partials. The locals
  \<open>currentState\<close> and \<open>currentTime\<close> keep their values from one iteration to the
  next: an entry whose key is neither transmitter nor receiver uses the values of the
  entry before it.
\<close>

fun positionPartialLoop ::
  "OneWayRangeScaling \<Rightarrow> Vector6d list \<Rightarrow> real list \<Rightarrow> LinkEndType
    \<Rightarrow> (LinkEndType \<times> PositionPartial) list \<Rightarrow> Vector6d \<Rightarrow> real
    \<Rightarrow> OneWayRangePartialReturnType \<Rightarrow> error + OneWayRangePartialReturnType" where
  "positionPartialLoop scaler states times' linkEndOfFixedTime [] currentState currentTime
     returnPartial = Inr returnPartial"
| "positionPartialLoop scaler states times' linkEndOfFixedTime ((role, partial) # rest)
     currentState currentTime returnPartial =
    (if role = transmitter \<and> (length states < 1 \<or> length times' < 1) then Inl OutOfRange
     else if role = receiver \<and> (length states < 2 \<or> length times' < 2) then Inl OutOfRange
     else
       let currentState1 =
             (if role = transmitter then states ! 0
              else if role = receiver then states ! 1 else currentState);
           currentTime1 =
             (if role = transmitter then times' ! 0
              else if role = receiver then times' ! 1 else currentTime)
       in case getScalingFactor role linkEndOfFixedTime scaler of
            Inl e \<Rightarrow> Inl e
          | Inr scaling \<Rightarrow>
              positionPartialLoop scaler states times' linkEndOfFixedTime rest
                currentState1 currentTime1
                (returnPartial @
                   [(row_times_matrix scaling (partial currentState1 currentTime1),
                     currentTime1)]))"

text \<open>
  The second loop, over the light-time correction partial functions: the value of the
  function is pushed back, then the matrix of the last entry is multiplied by
  \<open>-1.0 * SPEED_OF_LIGHT * getLightTimePartialScalingFactor( linkEndOfFixedTime )\<close>.
\<close>

fun lightTimeCorrectionLoop ::
  "real \<Rightarrow> OneWayRangeScaling \<Rightarrow> Vector6d list \<Rightarrow> real list \<Rightarrow> LinkEndType
    \<Rightarrow> (Vector6d list \<Rightarrow> real list \<Rightarrow> SingleOneWayRangePartialReturnType) list
    \<Rightarrow> OneWayRangePartialReturnType \<Rightarrow> error + OneWayRangePartialReturnType" where
  "lightTimeCorrectionLoop c scaler states times' linkEndOfFixedTime [] returnPartial =
     Inr returnPartial"
| "lightTimeCorrectionLoop c scaler states times' linkEndOfFixedTime (f # rest) returnPartial =
    (let pushed = returnPartial @ [f states times'];
         lastIndex = length pushed - 1
     in case getLightTimePartialScalingFactor linkEndOfFixedTime scaler of
          Inl e \<Rightarrow> Inl e
        | Inr factor \<Rightarrow>
            lightTimeCorrectionLoop c scaler states times' linkEndOfFixedTime rest
              (pushed[lastIndex :=
                 (times_v (fst (pushed ! lastIndex)) (- 1 * c * factor),
                  snd (pushed ! lastIndex))]))"

text \<open>
  \<^verbatim>\<open>OneWayRangePartial::calculatePartial\<close>. The locals \<open>currentState\<close> and
  \<open>currentTime\<close> are declared without an initial value; what they hold before the first
  assignment is given by the last two arguments.
\<close>

definition calculatePartial ::
  "real \<Rightarrow> OneWayRangePartial \<Rightarrow> Vector6d list \<Rightarrow> real list \<Rightarrow> LinkEndType
    \<Rightarrow> Vector6d \<Rightarrow> real \<Rightarrow> error + OneWayRangePartialReturnType" where
  "calculatePartial c this states times' linkEndOfFixedTime currentState currentTime =
    (case positionPartialLoop (oneWayRangeScaler this) states times' linkEndOfFixedTime
            (positionPartialList this) currentState currentTime [] of
       Inl e \<Rightarrow> Inl e
     | Inr returnPartial \<Rightarrow>
         lightTimeCorrectionLoop c (oneWayRangeScaler this) states times' linkEndOfFixedTime
           (lighTimeCorrectionPartialsFunctions this) returnPartial)"

subsection \<open>OneWayRangeObservationModel\<close>

text \<open>
  Modelled from the spec: the class \<^verbatim>\<open>LightTimeCalculator\<close> is declared in
  \<^verbatim>\<open>lightTimeSolution.h\<close>, which is not among the sources. The spec gives its contract
  as \<open>solve(time, anchorIsReceiver)\<close>, returning the light time and the states of the
  endpoints, with failure conditions of its own. The two member functions the observation
  model calls are the fields of a record: each is a function of its arguments that returns
  or fails. \<open>calculateLightTimeWithLinkEndsStates\<close> receives the receiver state and the
  transmitter state by reference; it is given their values and returns the light time with
  the new receiver state and the new transmitter state.
\<close>

record LightTimeCalculator =
  calculateLightTime :: "real \<Rightarrow> bool \<Rightarrow> error + real"
  calculateLightTimeWithLinkEndsStates ::
    "Vector6d \<Rightarrow> Vector6d \<Rightarrow> real \<Rightarrow> bool \<Rightarrow> error + real \<times> Vector6d \<times> Vector6d"

text \<open>The private members of the observation model.\<close>

record OneWayRangeObservationModel =
  lightTimeCalculator :: LightTimeCalculator
  receiverState :: Vector6d
  transmitterState :: Vector6d

text \<open>
  \<^verbatim>\<open>OneWayRangeObservationModel::computeIdealObservations\<close>. The result, a matrix with
  one row and one column, is its coefficient.
  \<^verbatim>\<open>physical_constants::getSpeedOfLight< ObservationScalarType >( )\<close> is the
  parameter \<open>c\<close>.
\<close>

definition computeIdealObservations ::
  "real \<Rightarrow> OneWayRangeObservationModel \<Rightarrow> real \<Rightarrow> LinkEndType \<Rightarrow> error + real" where
  "computeIdealObservations c this time linkEndAssociatedWithTime =
    (case (if linkEndAssociatedWithTime = receiver then Inr True
           else if linkEndAssociatedWithTime = transmitter then Inr False
           else Inl InvalidLinkEndRole) of
       Inl e \<Rightarrow> Inl e
     | Inr isTimeAtReception \<Rightarrow>
         (case calculateLightTime (lightTimeCalculator this) time isTimeAtReception of
            Inl e \<Rightarrow> Inl e
          | Inr lightTime \<Rightarrow> Inr (lightTime * c)))"

text \<open>
  \<^verbatim>\<open>OneWayRangeObservationModel::computeIdealObservationsWithLinkEndData\<close>. The switch
  computes the light time and the two times, or throws; the code after it converts the light
  time to a range and pushes the times and the states back onto the vectors it received by
  reference. The result is the observable, the two vectors and the object with its new
  member states.
\<close>

definition computeIdealObservationsWithLinkEndData ::
  "real \<Rightarrow> OneWayRangeObservationModel \<Rightarrow> real \<Rightarrow> LinkEndType \<Rightarrow> real list \<Rightarrow> Vector6d list
    \<Rightarrow> error + real \<times> real list \<times> Vector6d list \<times> OneWayRangeObservationModel" where
  "computeIdealObservationsWithLinkEndData c this time linkEndAssociatedWithTime
     linkEndTimes linkEndStates =
    (case (case linkEndAssociatedWithTime of
             receiver \<Rightarrow>
               (case calculateLightTimeWithLinkEndsStates (lightTimeCalculator this)
                       (receiverState this) (transmitterState this) time True of
                  Inl e \<Rightarrow> Inl e
                | Inr (observation, rs, ts) \<Rightarrow>
                    Inr (observation, time - observation, time,
                         this\<lparr>receiverState := rs, transmitterState := ts\<rparr>))
           | transmitter \<Rightarrow>
               (case calculateLightTimeWithLinkEndsStates (lightTimeCalculator this)
                       (receiverState this) (transmitterState this) time False of
                  Inl e \<Rightarrow> Inl e
                | Inr (observation, rs, ts) \<Rightarrow>
                    Inr (observation, time, time + observation,
                         this\<lparr>receiverState := rs, transmitterState := ts\<rparr>))
           | retransmitter n \<Rightarrow> Inl InvalidLinkEndRole) of
       Inl e \<Rightarrow> Inl e
     | Inr (observation, transmissionTime, receptionTime, this1) \<Rightarrow>
         Inr (observation * c,
              (linkEndTimes @ [transmissionTime]) @ [receptionTime],
              (linkEndStates @ [transmitterState this1]) @ [receiverState this1],
              this1))"

subsection \<open>The scaling factor in the words of the specification\<close>

text \<open>
  The unit line-of-sight vector from the transmitter position \<open>pt\<close> to the receiver
  position \<open>pr\<close>, written out by coordinates.
\<close>

definition unit_line_of_sight ::
  "real \<times> real \<times> real \<Rightarrow> real \<times> real \<times> real \<Rightarrow> real \<times> real \<times> real" where
  "unit_line_of_sight pt pr =
    (case (pt, pr) of ((xt, yt, zt), (xr, yr, zr)) \<Rightarrow>
       let d = sqrt ((xr - xt)\<^sup>2 + (yr - yt)\<^sup>2 + (zr - zt)\<^sup>2)
       in ((xr - xt) / d, (yr - yt) / d, (zr - zt) / d))"

text \<open>
  The transit-time-rate correction \<open>1 / (1 - v\<cdot>s / c)\<close> for an endpoint velocity \<open>v\<close>, a
  line of sight \<open>s\<close> and the signal speed \<open>c\<close>.
\<close>

definition transit_rate_factor ::
  "real \<Rightarrow> real \<times> real \<times> real \<Rightarrow> real \<times> real \<times> real \<Rightarrow> real" where
  "transit_rate_factor c v s =
    (case (v, s) of ((vx, vy, vz), (sx, sy, sz)) \<Rightarrow>
       1 / (1 - (vx * sx + vy * sy + vz * sz) / c))"

text \<open>The scaling matrix of the specification: the line of sight times the correction.\<close>

definition spec_scaling ::
  "real \<Rightarrow> real \<times> real \<times> real \<Rightarrow> real \<times> real \<times> real \<Rightarrow> real list" where
  "spec_scaling c s v =
    (case s of (sx, sy, sz) \<Rightarrow>
       [sx * transit_rate_factor c v s, sy * transit_rate_factor c v s,
        sz * transit_rate_factor c v s])"

subsection \<open>Example objects\<close>

text \<open>
  A transmitter at the origin that moves towards the receiver at half the speed of light,
  and a receiver at rest two metres away on the first axis.
\<close>

definition example_states :: "Vector6d list" where
  "example_states = [[0, 0, 0, 149896229, 0, 0], [2, 0, 0, 0, 0, 0]]"

definition unset_scaling :: OneWayRangeScaling where
  "unset_scaling =
    \<lparr>receiverReferenceLightTimeCorrectionScaling = 0,
     receiverReferenceScalingFactor = [0, 0, 0],
     transmitterReferenceLightTimeCorrectionScaling = 0,
     transmitterReferenceScalingFactor = [0, 0, 0]\<rparr>"

text \<open>The scaling object after \<open>update\<close> on \<open>example_states\<close>.\<close>

definition example_scaling :: OneWayRangeScaling where
  "example_scaling =
    \<lparr>receiverReferenceLightTimeCorrectionScaling = 2,
     receiverReferenceScalingFactor = [2, 0, 0],
     transmitterReferenceLightTimeCorrectionScaling = 1,
     transmitterReferenceScalingFactor = [1, 0, 0]\<rparr>"

text \<open>
  A partial object with a position partial at each link end and one light-time correction
  partial, evaluated at the midpoint of the two times.
\<close>

definition example_partial :: OneWayRangePartial where
  "example_partial =
    \<lparr>oneWayRangeScaler = example_scaling,
     positionPartialList =
       [(transmitter, \<lambda>state time. [[1, 0, 0], [0, 1, 0]]),
        (receiver, \<lambda>state time. [[1, 0, 0], [0, 1, 0]])],
     lighTimeCorrectionPartialsFunctions =
       [\<lambda>states times'. ([1, 3], (times' ! 0 + times' ! 1) / 2)]\<rparr>"

text \<open>
  A light-time calculator for two points at rest one light-second apart: the light time is
  one second whichever end the time is fixed at.
\<close>

definition stationary_calculator :: LightTimeCalculator where
  "stationary_calculator =
    \<lparr>calculateLightTime = (\<lambda>time isTimeAtReception. Inr 1),
     calculateLightTimeWithLinkEndsStates =
       (\<lambda>rs ts time isTimeAtReception.
          Inr (1, [299792458, 0, 0, 0, 0, 0], [0, 0, 0, 0, 0, 0]))\<rparr>"

definition stationary_model :: OneWayRangeObservationModel where
  "stationary_model =
    \<lparr>lightTimeCalculator = stationary_calculator,
     receiverState = [0, 0, 0, 0, 0, 0],
     transmitterState = [0, 0, 0, 0, 0, 0]\<rparr>"

section \<open>Properties of the link-end scaling\<close>

subsection \<open>What the member functions evaluate to\<close>

lemma update_two:
  "update c (tx # rx # rest) ts f s0 = Inr
     (s0\<lparr>receiverReferenceLightTimeCorrectionScaling :=
            1 / (1 - dot (divide_v (minus_v (segment 0 3 rx) (segment 0 3 tx))
                            (norm_v (minus_v (segment 0 3 rx) (segment 0 3 tx))))
                       (segment 3 3 tx) / c),
          receiverReferenceScalingFactor :=
            times_v (divide_v (minus_v (segment 0 3 rx) (segment 0 3 tx))
                            (norm_v (minus_v (segment 0 3 rx) (segment 0 3 tx))))
              (1 / (1 - dot (divide_v (minus_v (segment 0 3 rx) (segment 0 3 tx))
                            (norm_v (minus_v (segment 0 3 rx) (segment 0 3 tx))))
                       (segment 3 3 tx) / c)),
          transmitterReferenceLightTimeCorrectionScaling :=
            1 / (1 - dot (divide_v (minus_v (segment 0 3 rx) (segment 0 3 tx))
                            (norm_v (minus_v (segment 0 3 rx) (segment 0 3 tx))))
                       (segment 3 3 rx) / c),
          transmitterReferenceScalingFactor :=
            times_v (divide_v (minus_v (segment 0 3 rx) (segment 0 3 tx))
                            (norm_v (minus_v (segment 0 3 rx) (segment 0 3 tx))))
              (1 / (1 - dot (divide_v (minus_v (segment 0 3 rx) (segment 0 3 tx))
                            (norm_v (minus_v (segment 0 3 rx) (segment 0 3 tx))))
                       (segment 3 3 rx) / c))\<rparr>)"
  by (simp add: update_def Let_def transpose_v_def)

lemma example_update:
  "update 299792458 example_states [0, 1] receiver unset_scaling = Inr example_scaling"
  by (simp add: example_states_def update_two unset_scaling_def example_scaling_def
      segment_def minus_v_def divide_v_def times_v_def dot_def norm_v_def)

lemma getScalingFactor_valid:
  "getScalingFactor le transmitter s =
     Inr (if le = receiver then times_v (transmitterReferenceScalingFactor s) (- 1)
          else transmitterReferenceScalingFactor s)"
  "getScalingFactor le receiver s =
     Inr (if le = receiver then times_v (receiverReferenceScalingFactor s) (- 1)
          else receiverReferenceScalingFactor s)"
  by (simp_all add: getScalingFactor_def)

lemma getLightTimePartialScalingFactor_valid:
  "getLightTimePartialScalingFactor transmitter s =
     Inr (transmitterReferenceLightTimeCorrectionScaling s)"
  "getLightTimePartialScalingFactor receiver s =
     Inr (receiverReferenceLightTimeCorrectionScaling s)"
  by (simp_all add: getLightTimePartialScalingFactor_def)

lemma times_v_minus_one: "times_v v (- 1) = map uminus v"
  by (simp add: times_v_def)

subsection \<open>The factors that update stores\<close>

text \<open>
  Claim C1. For link-end states ordered transmitter, receiver, \<open>update\<close> returns, and
  afterwards the receiver-fixed scaling factor is the unit line-of-sight vector from the
  transmitter position to the receiver position times \<open>1 / (1 - v\<cdot>s / c)\<close> with \<open>v\<close> the
  velocity of the transmitter; the transmitter-fixed factor is the same expression with the
  velocity of the receiver; and \<open>getScalingFactor\<close> returns the selected factor, negated
  exactly when the differentiated link end is the receiver.
\<close>

theorem update_scaling_factors:
  "\<exists>s. update c ([xt, yt, zt, ut, vt, wt] # [xr, yr, zr, ur, vr, wr] # rest) ts f s0 = Inr s
     \<and> receiverReferenceScalingFactor s =
         spec_scaling c (unit_line_of_sight (xt, yt, zt) (xr, yr, zr)) (ut, vt, wt)
     \<and> transmitterReferenceScalingFactor s =
         spec_scaling c (unit_line_of_sight (xt, yt, zt) (xr, yr, zr)) (ur, vr, wr)
     \<and> (\<forall>le. getScalingFactor le receiver s =
           Inr (if le = receiver then map uminus (receiverReferenceScalingFactor s)
                else receiverReferenceScalingFactor s))
     \<and> (\<forall>le. getScalingFactor le transmitter s =
           Inr (if le = receiver then map uminus (transmitterReferenceScalingFactor s)
                else transmitterReferenceScalingFactor s))"
  apply (simp add: update_two getScalingFactor_valid times_v_minus_one)
  apply (simp add: spec_scaling_def unit_line_of_sight_def transit_rate_factor_def
      segment_def minus_v_def divide_v_def times_v_def dot_def norm_v_def Let_def
      power2_eq_square algebra_simps)
  done

text \<open>
  At the example states the line of sight is the first axis; the transmitter's half speed
  of light doubles the receiver-fixed factor and leaves the transmitter-fixed one alone.
\<close>

theorem update_scaling_factors_witness:
  "\<exists>s. update 299792458 example_states [0, 1] receiver unset_scaling = Inr s
     \<and> receiverReferenceScalingFactor s = [2, 0, 0]
     \<and> transmitterReferenceScalingFactor s = [1, 0, 0]
     \<and> getScalingFactor receiver receiver s = Inr [- 2, 0, 0]
     \<and> getScalingFactor transmitter receiver s = Inr [2, 0, 0]"
proof -
  have los: "unit_line_of_sight (0, 0, 0) (2, 0, 0) = (1, 0, 0)"
    by (simp add: unit_line_of_sight_def)
  have rx: "spec_scaling 299792458 (1, 0, 0) (149896229, 0, 0) = [2, 0, 0]"
    by (simp add: spec_scaling_def transit_rate_factor_def)
  have tx: "spec_scaling 299792458 (1, 0, 0) (0, 0, 0) = [1, 0, 0]"
    by (simp add: spec_scaling_def transit_rate_factor_def)
  from update_scaling_factors [of 299792458 0 0 0 149896229 0 0 2 0 0 0 0 0 "[]" "[0, 1]"
      receiver unset_scaling]
  show ?thesis
    unfolding los rx tx example_states_def by fastforce
qed

subsection \<open>Antisymmetry in the differentiated link end\<close>

text \<open>
  Claim C3. After a call of \<open>update\<close> that returns, and for a fixed-time link end \<open>X\<close>
  that is the transmitter or the receiver, \<open>getScalingFactor(receiver, X)\<close> is the negation
  of \<open>getScalingFactor(transmitter, X)\<close>.
\<close>

theorem getScalingFactor_antisymmetric:
  assumes "update c linkEndStates ts fixedLinkEnd s0 = Inr s"
    and "X = transmitter \<or> X = receiver"
  shows "\<exists>v. getScalingFactor transmitter X s = Inr v
           \<and> getScalingFactor receiver X s = Inr (map uminus v)"
  using assms(2) by (auto simp: getScalingFactor_valid times_v_minus_one)

theorem getScalingFactor_antisymmetric_witness:
  "update 299792458 example_states [0, 1] receiver unset_scaling = Inr example_scaling
   \<and> (receiver = transmitter \<or> receiver = receiver)
   \<and> (\<exists>v. getScalingFactor transmitter receiver example_scaling = Inr v
          \<and> getScalingFactor receiver receiver example_scaling = Inr (map uminus v))"
proof -
  have X: "receiver = transmitter \<or> receiver = receiver" by simp
  from getScalingFactor_antisymmetric [OF example_update X] example_update X
  show ?thesis by blast
qed

subsection \<open>Errors of the scaling object\<close>

text \<open>
  Claim C9. \<open>getScalingFactor\<close> and \<open>getLightTimePartialScalingFactor\<close> fail, with the
  incompatible-link-end condition and no other, if and only if the reference link end is
  neither the transmitter nor the receiver; for the transmitter and for the receiver they
  return a value.
\<close>

theorem scaling_raises_iff_invalid_reference:
  "(getScalingFactor le ref s = Inl IncompatibleLinkEnd
      \<longleftrightarrow> ref \<noteq> transmitter \<and> ref \<noteq> receiver)
   \<and> (getLightTimePartialScalingFactor ref s = Inl IncompatibleLinkEnd
      \<longleftrightarrow> ref \<noteq> transmitter \<and> ref \<noteq> receiver)
   \<and> (\<forall>e. getScalingFactor le ref s = Inl e \<or> getLightTimePartialScalingFactor ref s = Inl e
          \<longrightarrow> e = IncompatibleLinkEnd)
   \<and> (ref = transmitter \<or> ref = receiver
        \<longrightarrow> (\<exists>v. getScalingFactor le ref s = Inr v)
          \<and> (\<exists>k. getLightTimePartialScalingFactor ref s = Inr k))"
  by (auto simp: getScalingFactor_def getLightTimePartialScalingFactor_def)

theorem scaling_raises_iff_invalid_reference_witness:
  "getScalingFactor transmitter (retransmitter 0) example_scaling = Inl IncompatibleLinkEnd
   \<and> getLightTimePartialScalingFactor (retransmitter 0) example_scaling
       = Inl IncompatibleLinkEnd
   \<and> (\<exists>v. getScalingFactor transmitter receiver example_scaling = Inr v)
   \<and> (\<exists>k. getLightTimePartialScalingFactor receiver example_scaling = Inr k)"
  using scaling_raises_iff_invalid_reference [of transmitter "retransmitter 0" example_scaling]
    scaling_raises_iff_invalid_reference [of transmitter receiver example_scaling]
  by simp

subsection \<open>The differentiated link end is not validated\<close>

text \<open>
  Claim C10. \<open>getScalingFactor\<close> does not check the differentiated link end: for a
  reference link end that is the transmitter or the receiver, every differentiated role
  other than the receiver (a retransmitter too) gets the selected factor as it is stored,
  without an error, and the receiver gets its negation.
\<close>

theorem getScalingFactor_differentiated_unvalidated:
  assumes "ref = transmitter \<or> ref = receiver"
  shows "(le \<noteq> receiver \<longrightarrow>
            getScalingFactor le ref s =
              Inr (if ref = transmitter then transmitterReferenceScalingFactor s
                   else receiverReferenceScalingFactor s))
       \<and> (le = receiver \<longrightarrow>
            getScalingFactor le ref s =
              Inr (map uminus (if ref = transmitter then transmitterReferenceScalingFactor s
                   else receiverReferenceScalingFactor s)))"
  using assms by (auto simp: getScalingFactor_valid times_v_minus_one)

theorem getScalingFactor_differentiated_unvalidated_witness:
  "(receiver = transmitter \<or> receiver = receiver)
   \<and> getScalingFactor (retransmitter 0) receiver example_scaling = Inr [2, 0, 0]
   \<and> getScalingFactor receiver receiver example_scaling = Inr [- 2, 0, 0]"
proof -
  have ref: "receiver = transmitter \<or> receiver = receiver" by simp
  from getScalingFactor_differentiated_unvalidated [OF ref, of "retransmitter 0" example_scaling]
    getScalingFactor_differentiated_unvalidated [OF ref, of receiver example_scaling]
  show ?thesis by (simp add: example_scaling_def)
qed

section \<open>Properties of the observation partial\<close>

subsection \<open>The two loops\<close>

lemma positionPartialLoop_appends:
  "positionPartialLoop scaler states ts fixed ps cs ct acc = Inr r
    \<Longrightarrow> \<exists>new. r = acc @ new \<and> length new = length ps"
proof (induction ps arbitrary: cs ct acc)
  case Nil
  then show ?case by simp
next
  case (Cons p ps)
  obtain role partial where p: "p = (role, partial)" by (cases p)
  from Cons.prems p show ?case
    by (auto simp: Let_def split: if_splits sum.splits dest!: Cons.IH)
qed

lemma lightTimeCorrectionLoop_result:
  assumes "getLightTimePartialScalingFactor fixed scaler = Inr factor"
  shows "lightTimeCorrectionLoop c scaler states ts fixed fs acc =
           Inr (acc @ map (\<lambda>f. (times_v (fst (f states ts)) (- 1 * c * factor),
                                 snd (f states ts))) fs)"
  using assms by (induction fs arbitrary: acc) (simp_all add: Let_def)

text \<open>
  With a fixed link end that is the transmitter or the receiver, and two states and two
  times, \<open>calculatePartial\<close> returns.
\<close>

lemma calculatePartial_returns:
  assumes "linkEndOfFixedTime = transmitter \<or> linkEndOfFixedTime = receiver"
    and "2 \<le> length states" and "2 \<le> length ts"
  shows "\<exists>r. calculatePartial c this states ts linkEndOfFixedTime cs ct = Inr r"
proof -
  have "\<exists>r. positionPartialLoop scaler states ts linkEndOfFixedTime ps cs' ct' acc = Inr r"
    for scaler ps cs' ct' acc
    using assms by (induction ps arbitrary: cs' ct' acc)
      (auto simp: Let_def getScalingFactor_valid)
  then obtain r1 where
    "positionPartialLoop (oneWayRangeScaler this) states ts linkEndOfFixedTime
       (positionPartialList this) cs ct [] = Inr r1"
    by blast
  moreover from assms(1) obtain factor where
    "getLightTimePartialScalingFactor linkEndOfFixedTime (oneWayRangeScaler this) = Inr factor"
    by (auto simp: getLightTimePartialScalingFactor_valid)
  ultimately show ?thesis
    by (simp add: calculatePartial_def lightTimeCorrectionLoop_result)
qed

lemma example_calculatePartial:
  "calculatePartial 299792458 example_partial example_states [0, 1] receiver
     [0, 0, 0, 0, 0, 0] 0 =
   Inr [([2, 0], 0), ([- 2, 0], 1), ([- 599584916, - 1798754748], 1 / 2)]"
  by (simp add: calculatePartial_def example_partial_def example_scaling_def
      example_states_def getScalingFactor_def getLightTimePartialScalingFactor_def
      row_times_matrix_def dot_def times_v_def Let_def)

subsection \<open>Entries of the light-time correction partials\<close>

text \<open>
  Claim C2. When the link end of fixed time is the transmitter or the receiver and
  \<open>calculatePartial\<close> returns, the returned list has one entry for each position partial
  followed by one entry for each light-time correction partial function, and the entry of
  the \<open>i\<close>-th function is the value of that function on the whole lists of states and
  times, its matrix multiplied by
  \<open>-1 * c * getLightTimePartialScalingFactor( linkEndOfFixedTime )\<close> and its time unchanged.
\<close>

theorem calculatePartial_light_time_entries:
  assumes "linkEndOfFixedTime = transmitter \<or> linkEndOfFixedTime = receiver"
    and "calculatePartial c this states ts linkEndOfFixedTime cs ct = Inr returnPartial"
    and "i < length (lighTimeCorrectionPartialsFunctions this)"
  shows "\<exists>factor.
           getLightTimePartialScalingFactor linkEndOfFixedTime (oneWayRangeScaler this)
             = Inr factor
         \<and> length returnPartial =
             length (positionPartialList this)
               + length (lighTimeCorrectionPartialsFunctions this)
         \<and> returnPartial ! (length (positionPartialList this) + i) =
             (times_v (fst ((lighTimeCorrectionPartialsFunctions this ! i) states ts))
                (- 1 * c * factor),
              snd ((lighTimeCorrectionPartialsFunctions this ! i) states ts))"
proof -
  from assms(1) obtain factor where
    k: "getLightTimePartialScalingFactor linkEndOfFixedTime (oneWayRangeScaler this)
          = Inr factor"
    by (auto simp: getLightTimePartialScalingFactor_valid)
  from assms(2) obtain r1 where
    r1: "positionPartialLoop (oneWayRangeScaler this) states ts linkEndOfFixedTime
           (positionPartialList this) cs ct [] = Inr r1"
    and r: "lightTimeCorrectionLoop c (oneWayRangeScaler this) states ts linkEndOfFixedTime
           (lighTimeCorrectionPartialsFunctions this) r1 = Inr returnPartial"
    by (auto simp: calculatePartial_def split: sum.splits)
  from positionPartialLoop_appends [OF r1]
  have len: "length r1 = length (positionPartialList this)"
    by auto
  from r have eq: "returnPartial =
      r1 @ map (\<lambda>f. (times_v (fst (f states ts)) (- 1 * c * factor), snd (f states ts)))
             (lighTimeCorrectionPartialsFunctions this)"
    by (simp add: lightTimeCorrectionLoop_result [OF k])
  show ?thesis
    using k len assms(3) by (simp add: eq nth_append)
qed

text \<open>
  The example has two position partials and one correction partial with the raw value
  \<open>([1, 3], 1 / 2)\<close>; the receiver-fixed factor is \<open>2\<close>, so the third entry is the raw
  matrix times \<open>-2 c\<close>.
\<close>

theorem calculatePartial_light_time_entries_witness:
  "(receiver = transmitter \<or> receiver = receiver)
   \<and> calculatePartial 299792458 example_partial example_states [0, 1] receiver
        [0, 0, 0, 0, 0, 0] 0 =
      Inr [([2, 0], 0), ([- 2, 0], 1), ([- 599584916, - 1798754748], 1 / 2)]
   \<and> 0 < length (lighTimeCorrectionPartialsFunctions example_partial)
   \<and> (\<exists>factor.
         getLightTimePartialScalingFactor receiver (oneWayRangeScaler example_partial)
           = Inr factor
       \<and> length [([2, 0], 0), ([- 2, 0], 1), ([- 599584916, - 1798754748 :: real], 1 / 2 :: real)] =
           length (positionPartialList example_partial)
             + length (lighTimeCorrectionPartialsFunctions example_partial)
       \<and> [([2, 0], 0), ([- 2, 0], 1), ([- 599584916, - 1798754748], 1 / 2)]
           ! (length (positionPartialList example_partial) + 0) =
           (times_v (fst ((lighTimeCorrectionPartialsFunctions example_partial ! 0)
                            example_states [0, 1]))
              (- 1 * 299792458 * factor),
            snd ((lighTimeCorrectionPartialsFunctions example_partial ! 0)
                   example_states [0, 1])))"
proof -
  have fixed: "receiver = transmitter \<or> receiver = receiver" by simp
  have i: "0 < length (lighTimeCorrectionPartialsFunctions example_partial)"
    by (simp add: example_partial_def)
  from calculatePartial_light_time_entries [OF fixed example_calculatePartial i]
    fixed example_calculatePartial i
  show ?thesis by blast
qed

section \<open>Properties of the observation model\<close>

subsection \<open>The three cases of the switch\<close>

lemma withLinkEndData_receiver:
  "computeIdealObservationsWithLinkEndData c m t receiver lts lss =
    (case calculateLightTimeWithLinkEndsStates (lightTimeCalculator m)
            (receiverState m) (transmitterState m) t True of
       Inl e \<Rightarrow> Inl e
     | Inr (lt, rs, ts) \<Rightarrow>
         Inr (lt * c, lts @ [t - lt, t], lss @ [ts, rs],
              m\<lparr>receiverState := rs, transmitterState := ts\<rparr>))"
  by (simp add: computeIdealObservationsWithLinkEndData_def split: sum.splits)

lemma withLinkEndData_transmitter:
  "computeIdealObservationsWithLinkEndData c m t transmitter lts lss =
    (case calculateLightTimeWithLinkEndsStates (lightTimeCalculator m)
            (receiverState m) (transmitterState m) t False of
       Inl e \<Rightarrow> Inl e
     | Inr (lt, rs, ts) \<Rightarrow>
         Inr (lt * c, lts @ [t, t + lt], lss @ [ts, rs],
              m\<lparr>receiverState := rs, transmitterState := ts\<rparr>))"
  by (simp add: computeIdealObservationsWithLinkEndData_def split: sum.splits)

lemma withLinkEndData_retransmitter:
  "computeIdealObservationsWithLinkEndData c m t (retransmitter n) lts lss =
     Inl InvalidLinkEndRole"
  by (simp add: computeIdealObservationsWithLinkEndData_def)

lemma stationary_light_time:
  "calculateLightTime (lightTimeCalculator stationary_model) t b = Inr 1"
  by (simp add: stationary_model_def stationary_calculator_def)

lemma stationary_light_time_with_states:
  "calculateLightTimeWithLinkEndsStates (lightTimeCalculator stationary_model)
     (receiverState stationary_model) (transmitterState stationary_model) t b =
   Inr (1, [299792458, 0, 0, 0, 0, 0], [0, 0, 0, 0, 0, 0])"
  by (simp add: stationary_model_def stationary_calculator_def)

lemma stationary_with_link_end_data:
  "computeIdealObservationsWithLinkEndData 299792458 stationary_model 10 receiver [] [] =
   Inr (299792458, [9, 10], [[0, 0, 0, 0, 0, 0], [299792458, 0, 0, 0, 0, 0]],
        stationary_model\<lparr>receiverState := [299792458, 0, 0, 0, 0, 0],
                          transmitterState := [0, 0, 0, 0, 0, 0]\<rparr>)"
  by (simp add: withLinkEndData_receiver stationary_light_time_with_states)

subsection \<open>Times of the link ends\<close>

text \<open>
  Claim C4. When the light-time calculator returns the light time \<open>lt\<close>: with the
  receiver as the anchor, \<open>computeIdealObservationsWithLinkEndData\<close> appends to the
  link-end times the transmission time \<open>t - lt\<close> and then the reception time \<open>t\<close>; with
  the transmitter as the anchor it appends the transmission time \<open>t\<close> and then the
  reception time \<open>t + lt\<close>.
\<close>

theorem link_end_times_anchor:
  "(calculateLightTimeWithLinkEndsStates (lightTimeCalculator m)
       (receiverState m) (transmitterState m) t True = Inr (lt, rs, ts)
     \<longrightarrow> (\<exists>obs lss' m'. computeIdealObservationsWithLinkEndData c m t receiver lts lss =
            Inr (obs, lts @ [t - lt, t], lss', m')))
   \<and> (calculateLightTimeWithLinkEndsStates (lightTimeCalculator m)
       (receiverState m) (transmitterState m) t False = Inr (lt, rs, ts)
     \<longrightarrow> (\<exists>obs lss' m'. computeIdealObservationsWithLinkEndData c m t transmitter lts lss =
            Inr (obs, lts @ [t, t + lt], lss', m')))"
  by (simp add: withLinkEndData_receiver withLinkEndData_transmitter)

theorem link_end_times_anchor_witness:
  "calculateLightTimeWithLinkEndsStates (lightTimeCalculator stationary_model)
     (receiverState stationary_model) (transmitterState stationary_model) 10 True =
     Inr (1, [299792458, 0, 0, 0, 0, 0], [0, 0, 0, 0, 0, 0])
   \<and> (\<exists>obs lss' m'.
         computeIdealObservationsWithLinkEndData 299792458 stationary_model 10 receiver [] [] =
           Inr (obs, [] @ [10 - 1, 10], lss', m'))
   \<and> calculateLightTimeWithLinkEndsStates (lightTimeCalculator stationary_model)
     (receiverState stationary_model) (transmitterState stationary_model) 10 False =
     Inr (1, [299792458, 0, 0, 0, 0, 0], [0, 0, 0, 0, 0, 0])
   \<and> (\<exists>obs lss' m'.
         computeIdealObservationsWithLinkEndData 299792458 stationary_model 10 transmitter [] [] =
           Inr (obs, [] @ [10, 10 + 1], lss', m'))"
  using link_end_times_anchor [of stationary_model 10 1 "[299792458, 0, 0, 0, 0, 0]"
      "[0, 0, 0, 0, 0, 0]" 299792458 "[]" "[]"]
    stationary_light_time_with_states [of 10 True]
    stationary_light_time_with_states [of 10 False]
  by blast

subsection \<open>The observable is the light time times the speed of light\<close>

text \<open>
  Claim C5. For an anchor that is the transmitter or the receiver and every time: when
  \<open>calculateLightTime\<close> returns the light time \<open>lt\<close>, \<open>computeIdealObservations\<close>
  returns \<open>lt * c\<close>; when \<open>calculateLightTimeWithLinkEndsStates\<close> returns the light time
  \<open>lt\<close>, the observable that \<open>computeIdealObservationsWithLinkEndData\<close> returns is
  \<open>lt * c\<close>.
\<close>

theorem observable_is_light_time_times_c:
  assumes "anchor = transmitter \<or> anchor = receiver"
  shows "(\<forall>lt. calculateLightTime (lightTimeCalculator m) t (anchor = receiver) = Inr lt
            \<longrightarrow> computeIdealObservations c m t anchor = Inr (lt * c))
       \<and> (\<forall>lt rs ts.
            calculateLightTimeWithLinkEndsStates (lightTimeCalculator m)
              (receiverState m) (transmitterState m) t (anchor = receiver) = Inr (lt, rs, ts)
            \<longrightarrow> (\<exists>lts' lss' m'.
                   computeIdealObservationsWithLinkEndData c m t anchor lts lss =
                     Inr (lt * c, lts', lss', m')))"
  using assms
  by (auto simp: computeIdealObservations_def withLinkEndData_receiver
      withLinkEndData_transmitter)

theorem observable_is_light_time_times_c_witness:
  "(transmitter = transmitter \<or> transmitter = receiver)
   \<and> calculateLightTime (lightTimeCalculator stationary_model) 10 (transmitter = receiver)
       = Inr 1
   \<and> computeIdealObservations 299792458 stationary_model 10 transmitter = Inr (1 * 299792458)
   \<and> (\<exists>lts' lss' m'.
         computeIdealObservationsWithLinkEndData 299792458 stationary_model 10 transmitter [] [] =
           Inr (1 * 299792458, lts', lss', m'))"
proof -
  have anchor: "transmitter = transmitter \<or> transmitter = receiver" by simp
  from observable_is_light_time_times_c [OF anchor, of stationary_model 10 299792458 "[]" "[]"]
    stationary_light_time [of 10 "transmitter = receiver"]
    stationary_light_time_with_states [of 10 "transmitter = receiver"]
  show ?thesis by blast
qed

subsection \<open>The two functions return the same observable\<close>

text \<open>
  Claim C6. For every time and every anchor, if the two functions of the light-time
  calculator agree at that time and anchor (the same light time, or both fail alike), then
  \<open>computeIdealObservations\<close> returns the observable that
  \<open>computeIdealObservationsWithLinkEndData\<close> returns, or both fail alike.
\<close>

theorem computeIdealObservations_agree:
  assumes "calculateLightTime (lightTimeCalculator m) t (anchor = receiver) =
      map_sum id fst (calculateLightTimeWithLinkEndsStates (lightTimeCalculator m)
        (receiverState m) (transmitterState m) t (anchor = receiver))"
  shows "computeIdealObservations c m t anchor =
      map_sum id fst (computeIdealObservationsWithLinkEndData c m t anchor lts lss)"
proof (cases anchor)
  case transmitter
  with assms show ?thesis
    by (auto simp: computeIdealObservations_def withLinkEndData_transmitter split: sum.splits)
next
  case (retransmitter n)
  then show ?thesis
    by (simp add: computeIdealObservations_def withLinkEndData_retransmitter)
next
  case receiver
  with assms show ?thesis
    by (auto simp: computeIdealObservations_def withLinkEndData_receiver split: sum.splits)
qed

theorem computeIdealObservations_agree_witness:
  "calculateLightTime (lightTimeCalculator stationary_model) 10 (receiver = receiver) =
      map_sum id fst (calculateLightTimeWithLinkEndsStates (lightTimeCalculator stationary_model)
        (receiverState stationary_model) (transmitterState stationary_model) 10
        (receiver = receiver))
   \<and> computeIdealObservations 299792458 stationary_model 10 receiver = Inr 299792458
   \<and> map_sum id fst
        (computeIdealObservationsWithLinkEndData 299792458 stationary_model 10 receiver [] [])
      = Inr 299792458"
proof -
  have agree:
    "calculateLightTime (lightTimeCalculator stationary_model) 10 (receiver = receiver) =
      map_sum id fst (calculateLightTimeWithLinkEndsStates (lightTimeCalculator stationary_model)
        (receiverState stationary_model) (transmitterState stationary_model) 10
        (receiver = receiver))"
    by (simp add: stationary_light_time stationary_light_time_with_states)
  have data: "map_sum id fst
        (computeIdealObservationsWithLinkEndData 299792458 stationary_model 10 receiver [] [])
      = Inr 299792458"
    by (simp add: stationary_with_link_end_data)
  from computeIdealObservations_agree [OF agree, of 299792458 "[]" "[]"] agree data
  show ?thesis by simp
qed

subsection \<open>Signal-flow order\<close>

text \<open>
  Claim C7. When \<open>computeIdealObservationsWithLinkEndData\<close> returns, it has appended to
  the link-end times first the transmission time and then the reception time (they differ by
  the light time, and the one at the anchor is the input time), and to the link-end states
  first the transmitter state and then the receiver state that the calculator produced.
\<close>

theorem link_end_data_signal_flow_order:
  assumes "computeIdealObservationsWithLinkEndData c m t anchor lts lss =
             Inr (obs, lts', lss', m')"
  shows "\<exists>lt rs ts transmissionTime receptionTime.
           calculateLightTimeWithLinkEndsStates (lightTimeCalculator m)
             (receiverState m) (transmitterState m) t (anchor = receiver) = Inr (lt, rs, ts)
         \<and> receptionTime - transmissionTime = lt
         \<and> (if anchor = receiver then receptionTime else transmissionTime) = t
         \<and> lts' = lts @ [transmissionTime, receptionTime]
         \<and> lss' = lss @ [ts, rs]
         \<and> transmitterState m' = ts \<and> receiverState m' = rs"
proof (cases anchor)
  case transmitter
  with assms show ?thesis
    by (auto simp: withLinkEndData_transmitter split: sum.splits)
next
  case (retransmitter n)
  with assms show ?thesis
    by (simp add: withLinkEndData_retransmitter)
next
  case receiver
  with assms show ?thesis
    by (auto simp: withLinkEndData_receiver split: sum.splits)
qed

theorem link_end_data_signal_flow_order_witness:
  "computeIdealObservationsWithLinkEndData 299792458 stationary_model 10 receiver [] [] =
     Inr (299792458, [9, 10], [[0, 0, 0, 0, 0, 0], [299792458, 0, 0, 0, 0, 0]],
          stationary_model\<lparr>receiverState := [299792458, 0, 0, 0, 0, 0],
                            transmitterState := [0, 0, 0, 0, 0, 0]\<rparr>)
   \<and> (\<exists>lt rs ts transmissionTime receptionTime.
         calculateLightTimeWithLinkEndsStates (lightTimeCalculator stationary_model)
           (receiverState stationary_model) (transmitterState stationary_model) 10
           (receiver = receiver) = Inr (lt, rs, ts)
       \<and> receptionTime - transmissionTime = lt
       \<and> (if receiver = receiver then receptionTime else transmissionTime) = 10
       \<and> [9, 10] = [] @ [transmissionTime, receptionTime]
       \<and> [[0, 0, 0, 0, 0, 0], [299792458, 0, 0, 0, 0, 0]] = [] @ [ts, rs])"
  using link_end_data_signal_flow_order [OF stationary_with_link_end_data]
    stationary_with_link_end_data
  by blast

subsection \<open>An anchor that is neither transmitter nor receiver\<close>

text \<open>
  Claim C8. For every time, with an anchor link end that is neither the transmitter nor the
  receiver, \<open>computeIdealObservations\<close> and \<open>computeIdealObservationsWithLinkEndData\<close>
  fail with the invalid-link-end-role condition; no observable is returned.
\<close>

theorem invalid_anchor_raises:
  assumes "anchor \<noteq> transmitter" and "anchor \<noteq> receiver"
  shows "computeIdealObservations c m t anchor = Inl InvalidLinkEndRole
       \<and> computeIdealObservationsWithLinkEndData c m t anchor lts lss = Inl InvalidLinkEndRole"
  using assms
  by (cases anchor) (simp_all add: computeIdealObservations_def withLinkEndData_retransmitter)

theorem invalid_anchor_raises_witness:
  "retransmitter 0 \<noteq> transmitter \<and> retransmitter 0 \<noteq> receiver
   \<and> computeIdealObservations 299792458 stationary_model 10 (retransmitter 0)
       = Inl InvalidLinkEndRole
   \<and> computeIdealObservationsWithLinkEndData 299792458 stationary_model 10 (retransmitter 0)
       [] [] = Inl InvalidLinkEndRole"
proof -
  have a: "retransmitter 0 \<noteq> transmitter" and b: "retransmitter 0 \<noteq> receiver" by simp_all
  from invalid_anchor_raises [OF a b, of 299792458 stationary_model 10 "[]" "[]"] a b
  show ?thesis by simp
qed

end
